theory Spec2Isabelle
  imports Main "HOL-Library.Word"
begin

section \<open>The native sample of the Android sample application\<close>

text \<open>
  The development embeds \<^verbatim>\<open>native-sample.cpp\<close>: the two JNI entry points
  \<^verbatim>\<open>Java_io_sentry_sample_NativeSample_crash\<close> and
  \<^verbatim>\<open>Java_io_sentry_sample_NativeSample_message\<close>. Both run on the calling thread
  against the state of the process, which is passed explicitly. A call either returns to
  the Java caller or ends the process with a signal.
\<close>

subsection \<open>Types of the included headers\<close>

text \<open>Priorities of \<^verbatim>\<open><android/log.h>\<close>; the sample uses \<^verbatim>\<open>ANDROID_LOG_WARN\<close> only.\<close>

datatype android_LogPriority =
    ANDROID_LOG_UNKNOWN
  | ANDROID_LOG_DEFAULT
  | ANDROID_LOG_VERBOSE
  | ANDROID_LOG_DEBUG
  | ANDROID_LOG_INFO
  | ANDROID_LOG_WARN
  | ANDROID_LOG_ERROR
  | ANDROID_LOG_FATAL
  | ANDROID_LOG_SILENT

text \<open>Severities of \<^verbatim>\<open><sentry.h>\<close> (debug, info, warning, error, fatal).\<close>

datatype sentry_level_t =
    SENTRY_LEVEL_DEBUG
  | SENTRY_LEVEL_INFO
  | SENTRY_LEVEL_WARNING
  | SENTRY_LEVEL_ERROR
  | SENTRY_LEVEL_FATAL

text \<open>An Event: severity, source tag and text.\<close>

record event =
  level :: sentry_level_t
  logger :: string
  message :: string

text \<open>
  A \<^verbatim>\<open>sentry_value_t\<close> is a handle to a value owned by the reporting library; the
  result of a capture is an event id, nil when nothing was captured.
\<close>

type_synonym sentry_value_t = nat

datatype sentry_uuid_t = Nil_uuid | Uuid nat

text \<open>Addresses and the bytes they hold; \<^verbatim>\<open>char\<close> is one byte.\<close>

type_synonym addr = "64 word"

type_synonym cchar = "8 word"

definition NULL :: addr where
  "NULL = 0"

text \<open>The two parameters of a static JNI method are pointers the sample never follows.\<close>

type_synonym JNIEnv = addr

type_synonym jclass = addr

subsection \<open>The state of the process\<close>

text \<open>
  The ambient ReporterSession: whether the client is initialized and able to accept
  events, and the configuration it was given from outside.
\<close>

datatype session_state = Uninitialized | Misconfigured | Healthy

record reporter_session =
  state :: session_state
  endpoint :: string
  credentials :: string
  sampling :: nat

text \<open>
  What a run does to the outside, in the order it happens. A capture is recorded with the
  Event the library found under the handle, \<open>None\<close> if the handle held none.
\<close>

datatype effect =
    LogPrint android_LogPriority string string
  | NewMessageEvent sentry_value_t sentry_level_t string string
  | CaptureEvent sentry_value_t "event option"
  | MemFault addr

datatype signal = SIGSEGV

record process =
  trace :: "effect list"
  session :: reporter_session
  store :: "event option list"
  accepted :: "event list"
  memory :: "addr \<Rightarrow> cchar option"
  pending_exception :: "string option"

text \<open>
  \<open>trace\<close> lists the effects so far, oldest first. \<open>store\<close> holds the library's values by
  handle, \<open>None\<close> once a value has been consumed. \<open>accepted\<close> lists the events the session
  took for transmission. \<open>memory\<close> gives the byte at each mapped address.
  \<open>pending_exception\<close> is the Java exception the native code has raised on this thread,
  if any.
\<close>

datatype 'a outcome = Returned 'a process | Terminated signal process

subsection \<open>The library calls the sample makes\<close>

definition TAG :: string where
  "TAG = ''sentry-sample''"

text \<open>
  Modelled from the spec: \<^verbatim>\<open>__android_log_print\<close> of the platform's log library, of
  which only the include is in the sources. It emits one diagnostic log line. Both format
  strings of the sample are free of conversions, so the line is the format string. Its
  integer result is dropped by both callers and is left out.
\<close>

definition android_log_print ::
  "android_LogPriority \<Rightarrow> string \<Rightarrow> string \<Rightarrow> process \<Rightarrow> process" where
  "android_log_print prio tag fmt s = s\<lparr>trace := trace s @ [LogPrint prio tag fmt]\<rparr>"

text \<open>
  Modelled from the spec: \<^verbatim>\<open>sentry_value_new_message_event\<close> of the reporting
  library, of which only the include is in the sources. It creates an Event from the three
  inputs, synchronously at the call site, and hands back a handle that no earlier value has.
\<close>

definition sentry_value_new_message_event ::
  "sentry_level_t \<Rightarrow> string \<Rightarrow> string \<Rightarrow> process \<Rightarrow> sentry_value_t \<times> process" where
  "sentry_value_new_message_event lvl lg msg s =
     (let h = length (store s)
      in (h, s\<lparr>trace := trace s @ [NewMessageEvent h lvl lg msg],
               store := store s @ [Some \<lparr>level = lvl, logger = lg, message = msg\<rparr>]\<rparr>))"

text \<open>
  Modelled from the spec: \<^verbatim>\<open>sentry_capture_event\<close> of the reporting library, of which
  only the include is in the sources. Ownership of the Event passes to the call, which
  consumes it. A healthy session takes the Event for transmission; if the session is not
  initialized or not configured the submission fails silently, and the nil id is all that
  tells. A handle that holds no Event is not captured. The session itself is only read.
\<close>

definition holds :: "sentry_value_t \<Rightarrow> process \<Rightarrow> event option" where
  "holds v s = (if v < length (store s) then store s ! v else None)"

definition sentry_capture_event ::
  "sentry_value_t \<Rightarrow> process \<Rightarrow> sentry_uuid_t \<times> process" where
  "sentry_capture_event v s =
     (let s1 = s\<lparr>trace := trace s @ [CaptureEvent v (holds v s)]\<rparr>
      in case holds v s of
           None \<Rightarrow> (Nil_uuid, s1)
         | Some ev \<Rightarrow>
             (let s2 = s1\<lparr>store := (store s)[v := None]\<rparr>
              in if state (session s) = Healthy
                 then (Uuid v, s2\<lparr>accepted := accepted s @ [ev]\<rparr>)
                 else (Nil_uuid, s2)))"

subsection \<open>Memory access\<close>

text \<open>
  The statement \<^verbatim>\<open>*ptr += k\<close> on a \<^verbatim>\<open>char *\<close>: a read of the byte at \<open>ptr\<close> and a
  write of the sum back through the same pointer, the sum wrapping in one byte. The null
  address is never mapped. An access through an address that is not mapped raises
  SIGSEGV, which ends the process: control does not come back to the statement after it.
\<close>

definition valid_byte :: "addr \<Rightarrow> process \<Rightarrow> cchar option" where
  "valid_byte p s = (if p = NULL then None else memory s p)"

definition add_assign_deref :: "addr \<Rightarrow> cchar \<Rightarrow> process \<Rightarrow> unit outcome" where
  "add_assign_deref p k s =
     (case valid_byte p s of
        None \<Rightarrow> Terminated SIGSEGV (s\<lparr>trace := trace s @ [MemFault p]\<rparr>)
      | Some b \<Rightarrow> Returned () (s\<lparr>memory := (memory s)(p := Some (b + k))\<rparr>))"

subsection \<open>The two entry points\<close>

text \<open>
  \<^verbatim>\<open>
  JNIEXPORT void JNICALL Java_io_sentry_sample_NativeSample_crash(JNIEnv *env, jclass cls) {
      __android_log_print(ANDROID_LOG_WARN, TAG, "About to crash.");
      char *ptr = 0;
      *ptr += 1;
  }
  \<close>
\<close>

definition Java_io_sentry_sample_NativeSample_crash ::
  "JNIEnv \<Rightarrow> jclass \<Rightarrow> process \<Rightarrow> unit outcome" where
  "Java_io_sentry_sample_NativeSample_crash env cls s0 =
     (let s1 = android_log_print ANDROID_LOG_WARN TAG ''About to crash.'' s0;
          ptr = NULL
      in add_assign_deref ptr 1 s1)"

text \<open>
  \<^verbatim>\<open>
  JNIEXPORT void JNICALL Java_io_sentry_sample_NativeSample_message(JNIEnv *env, jclass cls) {
      __android_log_print(ANDROID_LOG_WARN, TAG, "Sending message.");
      sentry_value_t event = sentry_value_new_message_event(
              SENTRY_LEVEL_INFO, "custom", "It works!");
      sentry_capture_event(event);
  }
  \<close>
  The id that \<^verbatim>\<open>sentry_capture_event\<close> returns is dropped; the function is \<^verbatim>\<open>void\<close>.
\<close>

definition Java_io_sentry_sample_NativeSample_message ::
  "JNIEnv \<Rightarrow> jclass \<Rightarrow> process \<Rightarrow> unit outcome" where
  "Java_io_sentry_sample_NativeSample_message env cls s0 =
     (let s1 = android_log_print ANDROID_LOG_WARN TAG ''Sending message.'' s0;
          (event, s2) =
             sentry_value_new_message_event SENTRY_LEVEL_INFO ''custom'' ''It works!'' s1;
          (uuid, s3) = sentry_capture_event event s2
      in Returned () s3)"

subsection \<open>The Java caller\<close>

text \<open>
  The managed side calls a native method some number of times in a row. A call that ends
  the process ends the run; the calls after it never happen.
\<close>

fun repeat_call :: "nat \<Rightarrow> (process \<Rightarrow> unit outcome) \<Rightarrow> process \<Rightarrow> unit outcome" where
  "repeat_call 0 f s = Returned () s"
| "repeat_call (Suc n) f s =
     (case f s of
        Returned u s' \<Rightarrow> repeat_call n f s'
      | Terminated sg s' \<Rightarrow> Terminated sg s')"

subsection \<open>Reading a run\<close>

text \<open>The effects of a run from \<open>s\<close> to \<open>t\<close>: what \<open>t\<close> has recorded beyond \<open>s\<close>.\<close>

definition effects_of :: "process \<Rightarrow> process \<Rightarrow> effect list" where
  "effects_of s t = drop (length (trace s)) (trace t)"

fun log_lines :: "effect list \<Rightarrow> (android_LogPriority \<times> string \<times> string) list" where
  "log_lines [] = []"
| "log_lines (LogPrint p t m # es) = (p, t, m) # log_lines es"
| "log_lines (e # es) = log_lines es"

text \<open>The handles created, the handles passed to a capture, and the Events those held.\<close>

fun created :: "effect list \<Rightarrow> sentry_value_t list" where
  "created [] = []"
| "created (NewMessageEvent h l g m # es) = h # created es"
| "created (e # es) = created es"

fun captured :: "effect list \<Rightarrow> sentry_value_t list" where
  "captured [] = []"
| "captured (CaptureEvent h ev # es) = h # captured es"
| "captured (e # es) = captured es"

fun submitted :: "effect list \<Rightarrow> event option list" where
  "submitted [] = []"
| "submitted (CaptureEvent h ev # es) = ev # submitted es"
| "submitted (e # es) = submitted es"

fun faults :: "effect list \<Rightarrow> addr list" where
  "faults [] = []"
| "faults (MemFault a # es) = a # faults es"
| "faults (e # es) = faults es"

text \<open>The Events the library still holds: created and not yet consumed.\<close>

definition live :: "process \<Rightarrow> event list" where
  "live s = [ev. Some ev \<leftarrow> store s]"

text \<open>
  What the caller of a native method can see of the process once the call is back: the
  ambient session, the exception pending on its thread, the memory, and the Events still
  held by the library. What the call sent out (log lines, Events a session took) is output
  and is read off the run instead.
\<close>

definition caller_visible ::
  "process \<Rightarrow> reporter_session \<times> string option \<times> (addr \<Rightarrow> cchar option) \<times> event list" where
  "caller_visible s = (session s, pending_exception s, memory s, live s)"

text \<open>
  What one call does, as seen from outside: whether it came back, the signal if not, the
  log lines it wrote, the Events it submitted, the Events the session took from it and the
  addresses it faulted on.
\<close>

definition behaviour ::
  "process \<Rightarrow> unit outcome \<Rightarrow>
   signal option \<times> (android_LogPriority \<times> string \<times> string) list \<times> event option list
     \<times> event list \<times> addr list" where
  "behaviour s r =
     (case r of
        Returned u t \<Rightarrow>
          (None, log_lines (effects_of s t), submitted (effects_of s t),
           drop (length (accepted s)) (accepted t), faults (effects_of s t))
      | Terminated sg t \<Rightarrow>
          (Some sg, log_lines (effects_of s t), submitted (effects_of s t),
           drop (length (accepted s)) (accepted t), faults (effects_of s t)))"

text \<open>
  A history is consistent when every handle it captured exists in the store and none was
  captured twice.
\<close>

definition consistent :: "process \<Rightarrow> bool" where
  "consistent s =
     (list_all (\<lambda>h. h < length (store s)) (captured (trace s)) \<and> distinct (captured (trace s)))"

subsection \<open>Concrete processes\<close>

text \<open>
  A process right after start, nothing mapped and the reporting client never initialized
  (the situation the comment in the sample describes), and one whose session is healthy.
\<close>

definition started :: process where
  "started =
     \<lparr>trace = [],
      session = \<lparr>state = Uninitialized, endpoint = [], credentials = [], sampling = 0\<rparr>,
      store = [], accepted = [], memory = (\<lambda>a. None), pending_exception = None\<rparr>"

definition reporting :: process where
  "reporting =
     started\<lparr>session := \<lparr>state = Healthy, endpoint = ''https://o0.ingest.example/1'',
                           credentials = ''public-key'', sampling = 100\<rparr>\<rparr>"

section \<open>What the entry points do\<close>

text \<open>The two entry points in closed form, and the readers of a run on appended traces.\<close>

lemma crash_run:
  "Java_io_sentry_sample_NativeSample_crash env cls s =
     Terminated SIGSEGV
       (s\<lparr>trace := trace s @ [LogPrint ANDROID_LOG_WARN TAG ''About to crash.'', MemFault NULL]\<rparr>)"
  by (simp add: Java_io_sentry_sample_NativeSample_crash_def add_assign_deref_def
      valid_byte_def android_log_print_def)

lemma message_run:
  "Java_io_sentry_sample_NativeSample_message env cls s =
     Returned ()
       (s\<lparr>trace := trace s @
            [LogPrint ANDROID_LOG_WARN TAG ''Sending message.'',
             NewMessageEvent (length (store s)) SENTRY_LEVEL_INFO ''custom'' ''It works!'',
             CaptureEvent (length (store s))
               (Some \<lparr>level = SENTRY_LEVEL_INFO, logger = ''custom'', message = ''It works!''\<rparr>)],
          store := store s @ [None],
          accepted :=
            (if state (session s) = Healthy
             then accepted s @
               [\<lparr>level = SENTRY_LEVEL_INFO, logger = ''custom'', message = ''It works!''\<rparr>]
             else accepted s)\<rparr>)"
  by (simp add: Java_io_sentry_sample_NativeSample_message_def android_log_print_def
      sentry_value_new_message_event_def sentry_capture_event_def holds_def Let_def)

lemma effects_of_append: "trace t = trace s @ es \<Longrightarrow> effects_of s t = es"
  by (simp add: effects_of_def)

lemma captured_append: "captured (xs @ ys) = captured xs @ captured ys"
  by (induction xs rule: captured.induct) simp_all

lemma repeat_message_run:
  "\<exists>t. repeat_call n (Java_io_sentry_sample_NativeSample_message env cls) s = Returned () t
     \<and> session t = session s
     \<and> pending_exception t = pending_exception s
     \<and> memory t = memory s
     \<and> live t = live s
     \<and> length (store t) = length (store s) + n
     \<and> length (trace s) \<le> length (trace t)
     \<and> take (length (trace s)) (trace t) = trace s
     \<and> log_lines (effects_of s t) = replicate n (ANDROID_LOG_WARN, TAG, ''Sending message.'')
     \<and> created (effects_of s t) = [length (store s)..<length (store s) + n]
     \<and> captured (effects_of s t) = [length (store s)..<length (store s) + n]
     \<and> submitted (effects_of s t) =
         replicate n (Some \<lparr>level = SENTRY_LEVEL_INFO, logger = ''custom'', message = ''It works!''\<rparr>)"
proof (induction n arbitrary: s)
  case 0
  show ?case by (simp add: effects_of_def)
next
  case (Suc n)
  define s1 where "s1 = s\<lparr>trace := trace s @
            [LogPrint ANDROID_LOG_WARN TAG ''Sending message.'',
             NewMessageEvent (length (store s)) SENTRY_LEVEL_INFO ''custom'' ''It works!'',
             CaptureEvent (length (store s))
               (Some \<lparr>level = SENTRY_LEVEL_INFO, logger = ''custom'', message = ''It works!''\<rparr>)],
          store := store s @ [None],
          accepted :=
            (if state (session s) = Healthy
             then accepted s @
               [\<lparr>level = SENTRY_LEVEL_INFO, logger = ''custom'', message = ''It works!''\<rparr>]
             else accepted s)\<rparr>"
  have step: "Java_io_sentry_sample_NativeSample_message env cls s = Returned () s1"
    unfolding s1_def by (rule message_run)
  from Suc.IH [of s1] obtain t where
    run: "repeat_call n (Java_io_sentry_sample_NativeSample_message env cls) s1 = Returned () t"
    and frame: "session t = session s1" "pending_exception t = pending_exception s1"
      "memory t = memory s1" "live t = live s1"
    and len: "length (store t) = length (store s1) + n" "length (trace s1) \<le> length (trace t)"
    and pre: "take (length (trace s1)) (trace t) = trace s1"
    and out: "log_lines (effects_of s1 t) = replicate n (ANDROID_LOG_WARN, TAG, ''Sending message.'')"
      "created (effects_of s1 t) = [length (store s1)..<length (store s1) + n]"
      "captured (effects_of s1 t) = [length (store s1)..<length (store s1) + n]"
      "submitted (effects_of s1 t) =
         replicate n (Some \<lparr>level = SENTRY_LEVEL_INFO, logger = ''custom'', message = ''It works!''\<rparr>)"
    by blast
  have tr1: "trace s1 = trace s @
            [LogPrint ANDROID_LOG_WARN TAG ''Sending message.'',
             NewMessageEvent (length (store s)) SENTRY_LEVEL_INFO ''custom'' ''It works!'',
             CaptureEvent (length (store s))
               (Some \<lparr>level = SENTRY_LEVEL_INFO, logger = ''custom'', message = ''It works!''\<rparr>)]"
    by (simp add: s1_def)
  have st1: "length (store s1) = Suc (length (store s))"
    by (simp add: s1_def)
  have split: "trace t = trace s1 @ effects_of s1 t"
    using pre by (metis append_take_drop_id effects_of_def)
  have eff: "effects_of s t =
            [LogPrint ANDROID_LOG_WARN TAG ''Sending message.'',
             NewMessageEvent (length (store s)) SENTRY_LEVEL_INFO ''custom'' ''It works!'',
             CaptureEvent (length (store s))
               (Some \<lparr>level = SENTRY_LEVEL_INFO, logger = ''custom'', message = ''It works!''\<rparr>)]
            @ effects_of s1 t"
    by (rule effects_of_append) (simp add: split [unfolded tr1] tr1)
  have "repeat_call (Suc n) (Java_io_sentry_sample_NativeSample_message env cls) s = Returned () t"
    by (simp add: step run)
  moreover have "session t = session s" "pending_exception t = pending_exception s"
    "memory t = memory s"
    using frame by (simp_all add: s1_def)
  moreover have "live t = live s"
    using frame(4) by (simp add: s1_def live_def)
  moreover have "length (store t) = length (store s) + Suc n"
    using len(1) st1 by simp
  moreover have "length (trace s) \<le> length (trace t)"
    using len(2) tr1 by simp
  moreover have "take (length (trace s)) (trace t) = trace s"
    by (subst split) (simp add: tr1)
  moreover have "log_lines (effects_of s t)
      = replicate (Suc n) (ANDROID_LOG_WARN, TAG, ''Sending message.'')"
    by (simp add: eff out)
  moreover have "created (effects_of s t) = [length (store s)..<length (store s) + Suc n]"
    by (simp add: eff out st1 upt_conv_Cons)
  moreover have "captured (effects_of s t) = [length (store s)..<length (store s) + Suc n]"
    by (simp add: eff out st1 upt_conv_Cons)
  moreover have "submitted (effects_of s t) =
      replicate (Suc n)
        (Some \<lparr>level = SENTRY_LEVEL_INFO, logger = ''custom'', message = ''It works!''\<rparr>)"
    by (simp add: eff out)
  ultimately show ?case by blast
qed


lemma repeat_message_trace:
  "repeat_call n (Java_io_sentry_sample_NativeSample_message env cls) s = Returned () t
   \<Longrightarrow> trace t = trace s @ effects_of s t"
  using repeat_message_run [of n env cls s]
  by (metis append_take_drop_id effects_of_def outcome.inject(1))

lemma message_behaviour:
  "behaviour s (Java_io_sentry_sample_NativeSample_message env cls s) =
     (None, [(ANDROID_LOG_WARN, TAG, ''Sending message.'')],
      [Some \<lparr>level = SENTRY_LEVEL_INFO, logger = ''custom'', message = ''It works!''\<rparr>],
      (if state (session s) = Healthy
       then [\<lparr>level = SENTRY_LEVEL_INFO, logger = ''custom'', message = ''It works!''\<rparr>]
       else []),
      [])"
  by (simp add: message_run behaviour_def effects_of_def)

lemma crash_behaviour:
  "behaviour s (Java_io_sentry_sample_NativeSample_crash env cls s) =
     (Some SIGSEGV, [(ANDROID_LOG_WARN, TAG, ''About to crash.'')], [], [], [NULL])"
  by (simp add: crash_run behaviour_def effects_of_def)

lemma consistent_repeat:
  assumes "consistent s"
    and "repeat_call n (Java_io_sentry_sample_NativeSample_message env cls) s = Returned () t"
  shows "consistent t"
proof -
  from repeat_message_run [of n env cls s] assms(2)
  have len: "length (store t) = length (store s) + n"
    and cap: "captured (effects_of s t) = [length (store s)..<length (store s) + n]"
    by auto
  have tr: "trace t = trace s @ effects_of s t"
    using assms(2) by (rule repeat_message_trace)
  have old: "\<forall>h \<in> set (captured (trace s)). h < length (store s)"
    and dist: "distinct (captured (trace s))"
    using assms(1) by (simp_all add: consistent_def list_all_iff)
  have "captured (trace t) = captured (trace s) @ [length (store s)..<length (store s) + n]"
    by (simp add: tr captured_append cap)
  then show ?thesis
    using old dist len by (auto simp: consistent_def list_all_iff)
qed

section \<open>The claims\<close>

text \<open>
  C1: for every session state, uninitialized, misconfigured or healthy, and whatever
  its configuration, a call of the message entry point returns to its caller. The result
  is the unit value of a \<^verbatim>\<open>void\<close> function, so no return code exists; no exception is
  left pending that was not pending before; no fault is raised; the call never ends the
  process. The outcome of the submission does not reach the caller.
\<close>

theorem message_never_raises:
  "(\<exists>t. Java_io_sentry_sample_NativeSample_message env cls (s\<lparr>session := sess\<rparr>) = Returned () t
        \<and> pending_exception t = pending_exception s
        \<and> faults (effects_of (s\<lparr>session := sess\<rparr>) t) = [])
   \<and> (\<forall>sg t. Java_io_sentry_sample_NativeSample_message env cls (s\<lparr>session := sess\<rparr>)
          \<noteq> Terminated sg t)"
  by (simp add: message_run effects_of_def)

text \<open>
  C2: every call of the crash entry point reaches the assignment through the null
  pointer, faults there at the null address, and ends the process with SIGSEGV. It never
  returns control to its caller.
\<close>

theorem crash_never_returns:
  "(\<exists>t. Java_io_sentry_sample_NativeSample_crash env cls s = Terminated SIGSEGV t
        \<and> faults (effects_of s t) = [NULL]
        \<and> last (trace t) = MemFault NULL)
   \<and> (\<forall>u t. Java_io_sentry_sample_NativeSample_crash env cls s \<noteq> Returned u t)"
  by (simp add: crash_run effects_of_def)

text \<open>
  C3: every call of the message entry point constructs one Event and submits it, and the
  Event submitted has level info, logger \<open>custom\<close> and message \<open>It works!\<close>, whatever the
  state of the process. A healthy session takes exactly that Event.
\<close>

theorem message_submits_fixed_event:
  "\<exists>t h. Java_io_sentry_sample_NativeSample_message env cls s = Returned () t
     \<and> effects_of s t =
         [LogPrint ANDROID_LOG_WARN TAG ''Sending message.'',
          NewMessageEvent h SENTRY_LEVEL_INFO ''custom'' ''It works!'',
          CaptureEvent h
            (Some \<lparr>level = SENTRY_LEVEL_INFO, logger = ''custom'', message = ''It works!''\<rparr>)]
     \<and> submitted (effects_of s t) =
         [Some \<lparr>level = SENTRY_LEVEL_INFO, logger = ''custom'', message = ''It works!''\<rparr>]
     \<and> (state (session s) = Healthy \<longrightarrow>
          accepted t = accepted s @
            [\<lparr>level = SENTRY_LEVEL_INFO, logger = ''custom'', message = ''It works!''\<rparr>])"
  by (simp add: message_run effects_of_def)

theorem message_submits_fixed_event_witness:
  "state (session reporting) = Healthy
   \<and> (\<exists>t h. Java_io_sentry_sample_NativeSample_message 0 0 reporting = Returned () t
     \<and> effects_of reporting t =
         [LogPrint ANDROID_LOG_WARN TAG ''Sending message.'',
          NewMessageEvent h SENTRY_LEVEL_INFO ''custom'' ''It works!'',
          CaptureEvent h
            (Some \<lparr>level = SENTRY_LEVEL_INFO, logger = ''custom'', message = ''It works!''\<rparr>)]
     \<and> submitted (effects_of reporting t) =
         [Some \<lparr>level = SENTRY_LEVEL_INFO, logger = ''custom'', message = ''It works!''\<rparr>]
     \<and> accepted t =
         [\<lparr>level = SENTRY_LEVEL_INFO, logger = ''custom'', message = ''It works!''\<rparr>])"
proof -
  have healthy: "state (session reporting) = Healthy"
    by (simp add: reporting_def)
  have none: "accepted reporting = []"
    by (simp add: reporting_def started_def)
  show ?thesis
    using message_submits_fixed_event [of 0 0 reporting] healthy none by simp
qed

text \<open>
  C4: in every run of the crash entry point the log line comes first and the fault
  second: the effects of the run are the line \<open>About to crash.\<close> under the tag
  \<open>sentry-sample\<close> followed by the fault, and nothing but that line precedes the fault.
\<close>

theorem crash_logs_before_fault:
  "\<exists>t. Java_io_sentry_sample_NativeSample_crash env cls s = Terminated SIGSEGV t
     \<and> effects_of s t = [LogPrint ANDROID_LOG_WARN TAG ''About to crash.'', MemFault NULL]
     \<and> log_lines (effects_of s t) = [(ANDROID_LOG_WARN, ''sentry-sample'', ''About to crash.'')]
     \<and> takeWhile (\<lambda>e. e \<noteq> MemFault NULL) (effects_of s t)
         = [LogPrint ANDROID_LOG_WARN TAG ''About to crash.'']"
  by (simp add: crash_run effects_of_def TAG_def)

text \<open>
  C5: with the session uninitialized, a call of the message entry point is a silent
  failure: it returns to the caller, the session takes no Event, what the caller can see
  of the process is as before (no exception pending that was not), and no fault is
  raised, so the process goes on.
\<close>

theorem uninitialized_message_is_silent:
  assumes "state (session s) = Uninitialized"
  shows "\<exists>t. Java_io_sentry_sample_NativeSample_message env cls s = Returned () t
     \<and> accepted t = accepted s
     \<and> caller_visible t = caller_visible s
     \<and> faults (effects_of s t) = []"
  using assms by (simp add: message_run effects_of_def caller_visible_def live_def)

theorem uninitialized_message_is_silent_witness:
  "state (session started) = Uninitialized
   \<and> (\<exists>t. Java_io_sentry_sample_NativeSample_message 0 0 started = Returned () t
     \<and> accepted t = []
     \<and> caller_visible t = caller_visible started
     \<and> faults (effects_of started t) = [])"
proof -
  have uninit: "state (session started) = Uninitialized"
    by (simp add: started_def)
  have none: "accepted started = []"
    by (simp add: started_def)
  show ?thesis
    using uninitialized_message_is_silent [OF uninit, of 0 0] uninit none by simp
qed

text \<open>
  C6: for every number \<open>n\<close>, \<open>n\<close> calls of the message entry point in a row all return;
  what the caller can see of the process after them is what it saw before them; each of
  them wrote the same log line and submitted the same Event; and one more call after them
  behaves exactly as the first call did. No call fails that the first did not, since
  none fails.
\<close>

theorem repeated_messages_independent:
  "\<exists>t. repeat_call n (Java_io_sentry_sample_NativeSample_message env cls) s = Returned () t
     \<and> caller_visible t = caller_visible s
     \<and> log_lines (effects_of s t) = replicate n (ANDROID_LOG_WARN, TAG, ''Sending message.'')
     \<and> submitted (effects_of s t) =
         replicate n
           (Some \<lparr>level = SENTRY_LEVEL_INFO, logger = ''custom'', message = ''It works!''\<rparr>)
     \<and> behaviour t (Java_io_sentry_sample_NativeSample_message env cls t)
         = behaviour s (Java_io_sentry_sample_NativeSample_message env cls s)"
proof -
  from repeat_message_run [of n env cls s] obtain t where
    run: "repeat_call n (Java_io_sentry_sample_NativeSample_message env cls) s = Returned () t"
    and frame: "session t = session s" "pending_exception t = pending_exception s"
      "memory t = memory s" "live t = live s"
    and out: "log_lines (effects_of s t) = replicate n (ANDROID_LOG_WARN, TAG, ''Sending message.'')"
      "captured (effects_of s t) = [length (store s)..<length (store s) + n]"
      "submitted (effects_of s t) =
         replicate n (Some \<lparr>level = SENTRY_LEVEL_INFO, logger = ''custom'', message = ''It works!''\<rparr>)"
    by blast
  have "caller_visible t = caller_visible s"
    using frame by (simp add: caller_visible_def)
  moreover have "behaviour t (Java_io_sentry_sample_NativeSample_message env cls t)
         = behaviour s (Java_io_sentry_sample_NativeSample_message env cls s)"
    using frame(1) by (simp add: message_behaviour)
  ultimately show ?thesis
    using run out by blast
qed

text \<open>
  C7: for every session, a call of the message entry point leaves the session as it was:
  state (and so whether it is initialized), endpoint, credentials and sampling are
  unchanged.
\<close>

theorem message_leaves_session:
  "\<exists>t. Java_io_sentry_sample_NativeSample_message env cls (s\<lparr>session := sess\<rparr>) = Returned () t
     \<and> session t = sess
     \<and> state (session t) = state sess
     \<and> endpoint (session t) = endpoint sess
     \<and> credentials (session t) = credentials sess
     \<and> sampling (session t) = sampling sess"
  by (simp add: message_run)

text \<open>
  C8: every call of the message entry point creates one Event under a handle that no
  earlier value has, passes that handle to one capture, and leaves it consumed. Over \<open>n\<close>
  calls in a row the handles captured are the handles created, each once; and if no
  handle had been captured twice before the calls, none has been after them.
\<close>

theorem message_event_submitted_once:
  "(\<exists>t h. Java_io_sentry_sample_NativeSample_message env cls s = Returned () t
       \<and> created (effects_of s t) = [h]
       \<and> captured (effects_of s t) = [h]
       \<and> holds h s = None
       \<and> length (store s) \<le> h
       \<and> holds h t = None)
   \<and> (\<exists>t. repeat_call n (Java_io_sentry_sample_NativeSample_message env cls) s = Returned () t
       \<and> captured (effects_of s t) = created (effects_of s t)
       \<and> distinct (captured (effects_of s t))
       \<and> (consistent s \<longrightarrow> consistent t))"
proof -
  have one: "\<exists>t h. Java_io_sentry_sample_NativeSample_message env cls s = Returned () t
       \<and> created (effects_of s t) = [h]
       \<and> captured (effects_of s t) = [h]
       \<and> holds h s = None
       \<and> length (store s) \<le> h
       \<and> holds h t = None"
    by (simp add: message_run effects_of_def holds_def)
  from repeat_message_run [of n env cls s] obtain t where
    run: "repeat_call n (Java_io_sentry_sample_NativeSample_message env cls) s = Returned () t"
    and cr: "created (effects_of s t) = [length (store s)..<length (store s) + n]"
    and cap: "captured (effects_of s t) = [length (store s)..<length (store s) + n]"
    by blast
  have "consistent s \<longrightarrow> consistent t"
    using run by (blast intro: consistent_repeat)
  with run cr cap one show ?thesis by auto
qed

theorem message_event_submitted_once_witness:
  "consistent started
   \<and> (\<exists>t. repeat_call (Suc (Suc 0)) (Java_io_sentry_sample_NativeSample_message 0 0) started
          = Returned () t
       \<and> captured (effects_of started t) = created (effects_of started t)
       \<and> distinct (captured (effects_of started t))
       \<and> consistent t)"
proof -
  have ok: "consistent started"
    by (simp add: consistent_def started_def)
  show ?thesis
    using message_event_submitted_once [of 0 0 started "Suc (Suc 0)"] ok by blast
qed

text \<open>
  C9: a call of the crash entry point creates no Event and captures none, and leaves the
  session, the library's values and the Events taken by the session as they were. All it
  does before the fault is write one log line.
\<close>

theorem crash_leaves_reporting_alone:
  "\<exists>t. Java_io_sentry_sample_NativeSample_crash env cls s = Terminated SIGSEGV t
     \<and> created (effects_of s t) = []
     \<and> captured (effects_of s t) = []
     \<and> session t = session s
     \<and> store t = store s
     \<and> accepted t = accepted s
     \<and> butlast (effects_of s t) = [LogPrint ANDROID_LOG_WARN TAG ''About to crash.'']
     \<and> last (effects_of s t) = MemFault NULL"
  by (simp add: crash_run effects_of_def)

text \<open>
  C10: both entry points ignore their two arguments: with any other \<open>env\<close> and
  \<open>cls\<close> the outcome is the same. What a call of the crash entry point does is the same in
  every process, and what a call of the message entry point does is the same in any two
  processes whose sessions are in the same state.
\<close>

theorem entry_points_ignore_arguments:
  "Java_io_sentry_sample_NativeSample_crash env cls s
     = Java_io_sentry_sample_NativeSample_crash env' cls' s
   \<and> Java_io_sentry_sample_NativeSample_message env cls s
     = Java_io_sentry_sample_NativeSample_message env' cls' s
   \<and> behaviour s (Java_io_sentry_sample_NativeSample_crash env cls s)
     = behaviour t (Java_io_sentry_sample_NativeSample_crash env' cls' t)
   \<and> (state (session s) = state (session t) \<longrightarrow>
        behaviour s (Java_io_sentry_sample_NativeSample_message env cls s)
        = behaviour t (Java_io_sentry_sample_NativeSample_message env' cls' t))"
proof -
  have "Java_io_sentry_sample_NativeSample_crash env cls s
      = Java_io_sentry_sample_NativeSample_crash env' cls' s"
    by (simp only: crash_run)
  moreover have "Java_io_sentry_sample_NativeSample_message env cls s
      = Java_io_sentry_sample_NativeSample_message env' cls' s"
    by (simp only: message_run)
  moreover have "behaviour s (Java_io_sentry_sample_NativeSample_crash env cls s)
      = behaviour t (Java_io_sentry_sample_NativeSample_crash env' cls' t)"
    by (simp only: crash_behaviour)
  moreover have "state (session s) = state (session t) \<longrightarrow>
        behaviour s (Java_io_sentry_sample_NativeSample_message env cls s)
        = behaviour t (Java_io_sentry_sample_NativeSample_message env' cls' t)"
    by (simp add: message_behaviour)
  ultimately show ?thesis by blast
qed

theorem entry_points_ignore_arguments_witness:
  "state (session started) = state (session (started\<lparr>store := [None, None]\<rparr>))
   \<and> Java_io_sentry_sample_NativeSample_crash 0 0 started
     = Java_io_sentry_sample_NativeSample_crash 7 9 started
   \<and> Java_io_sentry_sample_NativeSample_message 0 0 started
     = Java_io_sentry_sample_NativeSample_message 7 9 started
   \<and> behaviour started (Java_io_sentry_sample_NativeSample_message 0 0 started)
     = behaviour (started\<lparr>store := [None, None]\<rparr>)
         (Java_io_sentry_sample_NativeSample_message 7 9 (started\<lparr>store := [None, None]\<rparr>))"
proof -
  have same: "state (session started) = state (session (started\<lparr>store := [None, None]\<rparr>))"
    by simp
  show ?thesis
    using entry_points_ignore_arguments
      [of 0 0 started 7 9 "started\<lparr>store := [None, None]\<rparr>"] same
    by blast
qed

end
